theory Spec2Isabelle
  imports Main "HOL-Library.Word"
begin

section \<open>The can\_signal source of eKuiper (extensions/sources/cansignal/cansignal.go)\<close>

text \<open>
  A shallow embedding of \<^verbatim>\<open>cansignal.go\<close>. Go values are modelled as follows:
  \<^item> \<^verbatim>\<open>string\<close> is a byte sequence, here \<^typ>\<open>string\<close> (a list of 8-bit characters);
  \<^item> \<^verbatim>\<open>int32\<close>, \<^verbatim>\<open>uint32\<close> are \<^typ>\<open>32 word\<close>, \<^verbatim>\<open>int64\<close>, \<^verbatim>\<open>uint64\<close> are \<^typ>\<open>64 word\<close>;
    arithmetic wraps, signed values are read with \<^const>\<open>sint\<close>;
  \<^item> an \<^verbatim>\<open>error\<close> is a value of the datatype \<open>error\<close>, a run-time panic a value of
    \<open>panic\<close>;
  \<^item> the packages the file imports (\<^verbatim>\<open>strconv\<close>, \<^verbatim>\<open>math/rand\<close>, \<^verbatim>\<open>encoding/json\<close>,
    \<^verbatim>\<open>pkg/cast\<close>) are not part of the file: \<^verbatim>\<open>strconv\<close>'s integer parsers are written
    out after the Go standard library, the others are parameters of the functions
    that call them.
\<close>

subsection \<open>Errors and panics\<close>

datatype strconv_err = ErrSyntax | ErrRange

datatype error =
    NumError string string strconv_err
      \<comment> \<open>\<^verbatim>\<open>*strconv.NumError{Func, Num, Err}\<close>\<close>
  | UnknownDataType string
      \<comment> \<open>\<^verbatim>\<open>fmt.Errorf("unkonw data type: %s", dataType)\<close>\<close>
  | ExternalError string
      \<comment> \<open>an error made by \<^verbatim>\<open>cast.MapToStruct\<close> or \<^verbatim>\<open>encoding/json\<close>\<close>
  | ReadPropertiesFail error
      \<comment> \<open>\<^verbatim>\<open>fmt.Errorf("read properties %v fail with error: %v", props, err)\<close>\<close>
  | CyclicTimeNotPositive string "32 word"
      \<comment> \<open>\<^verbatim>\<open>"... property `cyclicTime` must be a positive integer but got %d"\<close>\<close>
  | ChangeTimeNegative string "32 word"
      \<comment> \<open>\<^verbatim>\<open>"... property `changeTime` must be a positive integer or zero but got %d"\<close>\<close>
  | MaxLessThanMin string
      \<comment> \<open>\<^verbatim>\<open>"... property `maxValuePhy` must be greater than `minValuePhy`"\<close>\<close>

datatype panic =
    InvalidArgument string
      \<comment> \<open>\<^verbatim>\<open>panic("invalid argument to Int31n")\<close> of \<^verbatim>\<open>math/rand\<close>\<close>
  | DivideByZero
      \<comment> \<open>runtime error: integer divide by zero\<close>
  | IndexOutOfRange nat nat
      \<comment> \<open>runtime error: index out of range [i] with length n\<close>
  | NilDereference
      \<comment> \<open>runtime error: invalid memory address or nil pointer dereference\<close>

subsection \<open>The configuration\<close>

record canSignal =
  Name :: string
  DataType :: string
  MinValuePhy :: string
  MaxValuePhy :: string
  CyclicTime :: "32 word"
  ChangeTime :: "32 word"

record canSignalSourceConfig =
  Signal :: "canSignal list"

type_synonym slot = "8 word list option"
  \<comment> \<open>a \<^verbatim>\<open>[]byte\<close>; \<open>None\<close> is the nil slice\<close>

record canSignalSource =
  conf :: "canSignalSourceConfig option"
  list :: "slot list"

text \<open>\<^verbatim>\<open>CanSignal()\<close> returns \<^verbatim>\<open>&canSignalSource{}\<close>: a nil \<^verbatim>\<open>conf\<close> and a nil \<^verbatim>\<open>list\<close>.\<close>

definition CanSignal :: canSignalSource where
  "CanSignal = \<lparr>conf = None, list = []\<rparr>"

subsection \<open>Go's comparison of strings\<close>

text \<open>
  \<^verbatim>\<open>a < b\<close> on Go strings compares byte by byte; a proper prefix is smaller.
\<close>

fun str_less :: "string \<Rightarrow> string \<Rightarrow> bool" where
  "str_less [] [] = False"
| "str_less [] (y # ys) = True"
| "str_less (x # xs) [] = False"
| "str_less (x # xs) (y # ys) =
     (if (of_char x :: nat) < of_char y then True
      else if (of_char y :: nat) < of_char x then False
      else str_less xs ys)"

subsection \<open>Configure\<close>

text \<open>
  The body of the \<^verbatim>\<open>for _, v := range cfg.Signal\<close> loop of \<^verbatim>\<open>Configure\<close>: the first
  failing check of the first failing signal returns its error.
\<close>

fun check_signals :: "canSignal list \<Rightarrow> error option" where
  "check_signals [] = None"
| "check_signals (v # vs) =
     (if sint (CyclicTime v) \<le> 0 then Some (CyclicTimeNotPositive (Name v) (CyclicTime v))
      else if sint (ChangeTime v) < 0 then Some (ChangeTimeNegative (Name v) (ChangeTime v))
      else if str_less (MaxValuePhy v) (MinValuePhy v) then Some (MaxLessThanMin (Name v))
      else check_signals vs)"

text \<open>
  \<^verbatim>\<open>Configure(topic, props)\<close>. \<open>MapToStruct\<close> stands for \<^verbatim>\<open>cast.MapToStruct(props, cfg)\<close>:
  it gives the decoded configuration or an error. The result is the source after the
  call and the returned error (\<open>None\<close> is \<^verbatim>\<open>nil\<close>).
\<close>

definition Configure ::
  "('props \<Rightarrow> error + canSignalSourceConfig) \<Rightarrow> canSignalSource \<Rightarrow> string \<Rightarrow> 'props
     \<Rightarrow> canSignalSource \<times> error option" where
  "Configure MapToStruct s topic props =
     (case MapToStruct props of
        Inl err \<Rightarrow> (s, Some (ReadPropertiesFail err))
      | Inr cfg \<Rightarrow>
          (case check_signals (Signal cfg) of
             Some e \<Rightarrow> (s, Some e)
           | None \<Rightarrow> (s\<lparr>conf := Some cfg\<rparr>, None)))"

subsection \<open>strconv.ParseUint and strconv.ParseInt, base 10\<close>

text \<open>
  After the Go standard library, for the only way the file calls them: base 10 and
  a bit size of 32 or 64. Both return a value and an error, as in Go.
  In base 10 a byte that is not a decimal digit is a syntax error (letters are
  digits of a larger base, the underscore is accepted in base 0 only).
\<close>

definition is_digit :: "char \<Rightarrow> bool" where
  "is_digit c = (48 \<le> (of_char c :: nat) \<and> (of_char c :: nat) \<le> 57)"

definition digit_val :: "char \<Rightarrow> 64 word" where
  "digit_val c = of_nat (of_char c - 48)"

definition maxVal :: "nat \<Rightarrow> 64 word" where
  "maxVal bitSize = push_bit bitSize 1 - 1"

definition cutoff10 :: "64 word" where
  "cutoff10 = 1844674407370955162"
  \<comment> \<open>\<^verbatim>\<open>maxUint64/10 + 1\<close>: the smallest number whose tenfold is beyond 64 bits\<close>

fun ParseUint_loop :: "nat \<Rightarrow> 64 word \<Rightarrow> string \<Rightarrow> 64 word \<times> strconv_err option" where
  "ParseUint_loop bitSize n [] = (n, None)"
| "ParseUint_loop bitSize n (c # cs) =
     (if \<not> is_digit c then (0, Some ErrSyntax)
      else if cutoff10 \<le> n then (maxVal bitSize, Some ErrRange)
      else let n0 = n * 10; n1 = n0 + digit_val c
           in if n1 < n0 \<or> maxVal bitSize < n1 then (maxVal bitSize, Some ErrRange)
              else ParseUint_loop bitSize n1 cs)"

definition ParseUint :: "string \<Rightarrow> nat \<Rightarrow> 64 word \<times> error option" where
  "ParseUint s bitSize =
     (if s = [] then (0, Some (NumError ''ParseUint'' s ErrSyntax))
      else case ParseUint_loop bitSize 0 s of
             (n, None) \<Rightarrow> (n, None)
           | (n, Some e) \<Rightarrow> (n, Some (NumError ''ParseUint'' s e)))"

text \<open>
  \<^verbatim>\<open>ParseInt\<close> picks off a sign, parses the rest unsigned and checks the range; a range
  error of \<^verbatim>\<open>ParseUint\<close> leaves the largest value, which the range check refuses again.
\<close>

definition ParseInt :: "string \<Rightarrow> nat \<Rightarrow> 64 word \<times> error option" where
  "ParseInt s0 bitSize =
     (if s0 = [] then (0, Some (NumError ''ParseInt'' s0 ErrSyntax))
      else
        let neg = (hd s0 = CHR ''-'');
            s = (if hd s0 = CHR ''+'' \<or> hd s0 = CHR ''-'' then tl s0 else s0)
        in case ParseUint s bitSize of
             (un, Some (NumError f n ErrSyntax)) \<Rightarrow> (0, Some (NumError ''ParseInt'' s0 ErrSyntax))
           | (un, _) \<Rightarrow>
               (let cutoff = (push_bit (bitSize - 1) 1 :: 64 word) in
                if \<not> neg \<and> cutoff \<le> un then (cutoff - 1, Some (NumError ''ParseInt'' s0 ErrRange))
                else if neg \<and> cutoff < un then (- cutoff, Some (NumError ''ParseInt'' s0 ErrRange))
                else (if neg then - un else un, None)))"

subsection \<open>Values, the random source and floating point\<close>

text \<open>
  The value stored under the signal's name is an \<^verbatim>\<open>interface{}\<close> holding one of six
  numeric types. The two floating-point types are type parameters: their arithmetic
  is not interpreted.
\<close>

datatype ('f32, 'f64) val =
    Int32 "32 word"
  | Int64 "64 word"
  | Uint32 "32 word"
  | Uint64 "64 word"
  | Float32 'f32
  | Float64 'f64

text \<open>
  What one call of \<^verbatim>\<open>randomize\<close> can draw from the process-wide generator of
  \<^verbatim>\<open>math/rand\<close>: the result of \<^verbatim>\<open>Int31n(n)\<close> and of \<^verbatim>\<open>Int63n(n)\<close> for each \<open>n\<close>, and
  of \<^verbatim>\<open>Uint32()\<close>, \<^verbatim>\<open>Uint64()\<close>, \<^verbatim>\<open>Float32()\<close>, \<^verbatim>\<open>Float64()\<close>.
\<close>

record ('f32, 'f64) rand_source =
  draw_Int31n :: "32 word \<Rightarrow> 32 word"
  draw_Int63n :: "64 word \<Rightarrow> 64 word"
  draw_Uint32 :: "32 word"
  draw_Uint64 :: "64 word"
  draw_Float32 :: 'f32
  draw_Float64 :: 'f64

text \<open>
  The documented contract of \<^verbatim>\<open>math/rand\<close>: for \<open>n > 0\<close> the results of \<^verbatim>\<open>Int31n(n)\<close> and
  \<^verbatim>\<open>Int63n(n)\<close> are in the half-open interval \<open>[0, n)\<close>.
\<close>

definition rand_contract :: "('f32, 'f64) rand_source \<Rightarrow> bool" where
  "rand_contract r =
     ((\<forall>n. 0 < sint n \<longrightarrow> 0 \<le> sint (draw_Int31n r n) \<and> sint (draw_Int31n r n) < sint n) \<and>
      (\<forall>n. 0 < sint n \<longrightarrow> 0 \<le> sint (draw_Int63n r n) \<and> sint (draw_Int63n r n) < sint n))"

text \<open>\<^verbatim>\<open>rand.Int31n(n)\<close> and \<^verbatim>\<open>rand.Int63n(n)\<close> panic if \<open>n \<le> 0\<close>.\<close>

definition rand_Int31n :: "('f32, 'f64) rand_source \<Rightarrow> 32 word \<Rightarrow> panic + 32 word" where
  "rand_Int31n r n =
     (if sint n \<le> 0 then Inl (InvalidArgument ''invalid argument to Int31n'')
      else Inr (draw_Int31n r n))"

definition rand_Int63n :: "('f32, 'f64) rand_source \<Rightarrow> 64 word \<Rightarrow> panic + 64 word" where
  "rand_Int63n r n =
     (if sint n \<le> 0 then Inl (InvalidArgument ''invalid argument to Int63n'')
      else Inr (draw_Int63n r n))"

text \<open>The operator \<^verbatim>\<open>%\<close> on unsigned integers: dividing by zero panics.\<close>

definition go_mod :: "'a::len word \<Rightarrow> 'a word \<Rightarrow> panic + 'a word" where
  "go_mod a b = (if b = 0 then Inl DivideByZero else Inr (a mod b))"

text \<open>
  The floating-point operations \<^verbatim>\<open>randomize\<close> uses, and the conversion of a decimal
  literal that \<^verbatim>\<open>strconv.ParseFloat\<close> does; like the integer parsers, \<^verbatim>\<open>ParseFloat\<close> fails
  with a \<^verbatim>\<open>*NumError\<close> only.
\<close>

record ('f32, 'f64) float_ops =
  parse_float :: "string \<Rightarrow> nat \<Rightarrow> 'f64 \<times> strconv_err option"
  f64_sub :: "'f64 \<Rightarrow> 'f64 \<Rightarrow> 'f64"
  f64_mul :: "'f64 \<Rightarrow> 'f64 \<Rightarrow> 'f64"
  f64_add :: "'f64 \<Rightarrow> 'f64 \<Rightarrow> 'f64"
  to_float32 :: "'f64 \<Rightarrow> 'f32"
  f32_mul :: "'f32 \<Rightarrow> 'f32 \<Rightarrow> 'f32"
  f32_add :: "'f32 \<Rightarrow> 'f32 \<Rightarrow> 'f32"

definition ParseFloat :: "('f32, 'f64) float_ops \<Rightarrow> string \<Rightarrow> nat \<Rightarrow> 'f64 \<times> error option" where
  "ParseFloat fl s bitSize =
     (case parse_float fl s bitSize of
        (f, None) \<Rightarrow> (f, None)
      | (f, Some e) \<Rightarrow> (f, Some (NumError ''ParseFloat'' s e)))"

subsection \<open>randomize\<close>

text \<open>
  A call returns a map and a nil error, or a nil map and an error, or panics.
\<close>

datatype 'a result = Return 'a | Fail error | Panic panic

type_synonym ('f32, 'f64) tuple_map = "string \<rightharpoonup> ('f32, 'f64) val"

definition randomize ::
  "('f32, 'f64) float_ops \<Rightarrow> ('f32, 'f64) rand_source \<Rightarrow>
     string \<Rightarrow> string \<Rightarrow> string \<Rightarrow> string \<Rightarrow> ('f32, 'f64) tuple_map result" where
  "randomize fl r name dataType minValuePhy maxValuePhy =
     (if dataType = ''int32'' \<or> dataType = ''sint32'' then
        (case ParseInt minValuePhy 32 of
           (minValue, Some err) \<Rightarrow> Fail err
         | (minValue, None) \<Rightarrow>
        (case ParseInt maxValuePhy 32 of
           (maxValue, Some err) \<Rightarrow> Fail err
         | (maxValue, None) \<Rightarrow>
        (case rand_Int31n r ((ucast maxValue :: 32 word) - ucast minValue) of
           Inl p \<Rightarrow> Panic p
         | Inr d \<Rightarrow> Return [name \<mapsto> Int32 (d + ucast minValue)])))
      else if dataType = ''int64'' then
        (case ParseInt minValuePhy 64 of
           (minValue, Some err) \<Rightarrow> Fail err
         | (minValue, None) \<Rightarrow>
        (case ParseInt maxValuePhy 64 of
           (maxValue, Some err) \<Rightarrow> Fail err
         | (maxValue, None) \<Rightarrow>
        (case rand_Int63n r (maxValue - minValue) of
           Inl p \<Rightarrow> Panic p
         | Inr d \<Rightarrow> Return [name \<mapsto> Int64 (d + minValue)])))
      else if dataType = ''uint32'' then
        (case ParseUint minValuePhy 32 of
           (minValue, Some err) \<Rightarrow> Fail err
         | (minValue, None) \<Rightarrow>
        (case ParseUint maxValuePhy 32 of
           (maxValue, Some err) \<Rightarrow> Fail err
         | (maxValue, None) \<Rightarrow>
        (case go_mod (draw_Uint32 r) (ucast (maxValue - minValue) :: 32 word) of
           Inl p \<Rightarrow> Panic p
         | Inr d \<Rightarrow> Return [name \<mapsto> Uint32 (d + ucast minValue)])))
      else if dataType = ''uint64'' then
        (case ParseUint minValuePhy 64 of
           (minValue, Some err) \<Rightarrow> Fail err
         | (minValue, None) \<Rightarrow>
        (case ParseUint maxValuePhy 64 of
           (maxValue, Some err) \<Rightarrow> Fail err
         | (maxValue, None) \<Rightarrow>
        (case go_mod (draw_Uint64 r) (maxValue - minValue) of
           Inl p \<Rightarrow> Panic p
         | Inr d \<Rightarrow> Return [name \<mapsto> Uint64 (d + minValue)])))
      else if dataType = ''float'' \<or> dataType = ''float32'' then
        (case ParseFloat fl minValuePhy 32 of
           (minValue, Some err) \<Rightarrow> Fail err
         | (minValue, None) \<Rightarrow>
        (case ParseFloat fl maxValuePhy 32 of
           (maxValue, Some err) \<Rightarrow> Fail err
         | (maxValue, None) \<Rightarrow>
           Return [name \<mapsto> Float32
             (f32_add fl (f32_mul fl (draw_Float32 r) (to_float32 fl (f64_sub fl maxValue minValue)))
                (to_float32 fl minValue))]))
      else if dataType = ''double'' \<or> dataType = ''float64'' then
        (case ParseFloat fl minValuePhy 64 of
           (minValue, Some err) \<Rightarrow> Fail err
         | (minValue, None) \<Rightarrow>
        (case ParseFloat fl maxValuePhy 64 of
           (maxValue, Some err) \<Rightarrow> Fail err
         | (maxValue, None) \<Rightarrow>
           Return [name \<mapsto> Float64
             (f64_add fl (f64_mul fl (draw_Float64 r) (f64_sub fl maxValue minValue)) minValue)]))
      else Fail (UnknownDataType dataType))"

subsection \<open>Open\<close>

text \<open>
  What \<^verbatim>\<open>Open\<close> and the loops it starts act on besides the source: the logger, the
  error channel, the consumer channel (each the sequence of what was sent so far) and
  the goroutines started. \<^verbatim>\<open>json.Marshal\<close> and \<^verbatim>\<open>json.Unmarshal\<close> are parameters;
  \<open>Unmarshal data next\<close> gives the map \<^verbatim>\<open>next\<close> as the call leaves it, and the error.
\<close>

datatype ('f32, 'f64) log_entry =
    DebugReady canSignal
      \<comment> \<open>\<^verbatim>\<open>Debugf("can signal %s ready to send data, ...")\<close>\<close>
  | WarnInvalidInput "('f32, 'f64) tuple_map"
      \<comment> \<open>\<^verbatim>\<open>Warnf("invalid input data %v", next)\<close>\<close>
  | WarnUnmarshalFailed slot
      \<comment> \<open>\<^verbatim>\<open>Warnf("unmarshal input data failed %v", s.list[k])\<close>\<close>
  | DebugSendOut "('f32, 'f64) tuple_map"
      \<comment> \<open>\<^verbatim>\<open>Debugf("Send out data %v", next)\<close>\<close>

datatype ('f32, 'f64) source_tuple =
  DefaultSourceTuple "('f32, 'f64) tuple_map" "('f32, 'f64) tuple_map option"
    \<comment> \<open>\<^verbatim>\<open>api.NewDefaultSourceTuple(message, meta)\<close>; \<open>None\<close> is the nil meta\<close>

datatype task = MutationLoop nat canSignal | EmissionLoop nat canSignal
  \<comment> \<open>the two \<^verbatim>\<open>go func() {...}()\<close> of the loop body, with the \<open>k\<close> and \<open>v\<close> they were started at\<close>

record ('f32, 'f64) world =
  logs :: "('f32, 'f64) log_entry list"
  errCh :: "error list"
  consumer :: "('f32, 'f64) source_tuple list"
  tasks :: "task list"

record ('f32, 'f64) json_ops =
  Marshal :: "('f32, 'f64) tuple_map \<Rightarrow> 8 word list \<times> error option"
  Unmarshal :: "slot \<Rightarrow> ('f32, 'f64) tuple_map \<Rightarrow> ('f32, 'f64) tuple_map \<times> error option"

text \<open>The assignment \<^verbatim>\<open>s.list[k] = ns\<close>: an index beyond the slice panics.\<close>

definition store_slot :: "slot list \<Rightarrow> nat \<Rightarrow> slot \<Rightarrow> panic + slot list" where
  "store_slot l k ns =
     (if k < length l then Inr (l[k := ns]) else Inl (IndexOutOfRange k (length l)))"

text \<open>
  How the goroutine that runs \<^verbatim>\<open>Open\<close> ends its start-up: it reaches \<^verbatim>\<open><-ctx.Done()\<close> and
  waits there, it returns early, or it panics.
\<close>

datatype open_end = Blocked | Returned | Panicked panic

text \<open>
  The loop \<^verbatim>\<open>for k, v := range s.conf.Signal\<close>. \<open>rs k\<close> is what the call of \<^verbatim>\<open>randomize\<close> of
  round \<open>k\<close> draws from the random source.
\<close>

fun Open_loop ::
  "('f32, 'f64) json_ops \<Rightarrow> ('f32, 'f64) float_ops \<Rightarrow> (nat \<Rightarrow> ('f32, 'f64) rand_source) \<Rightarrow>
     nat \<Rightarrow> canSignal list \<Rightarrow> canSignalSource \<Rightarrow> ('f32, 'f64) world \<Rightarrow>
     open_end \<times> canSignalSource \<times> ('f32, 'f64) world" where
  "Open_loop js fl rs k [] s w = (Blocked, s, w)"
| "Open_loop js fl rs k (v # vs) s w =
     (let w1 = w\<lparr>logs := logs w @ [DebugReady v]\<rparr> in
      case randomize fl (rs k) (Name v) (DataType v) (MinValuePhy v) (MaxValuePhy v) of
        Panic p \<Rightarrow> (Panicked p, s, w1)
      | Fail err \<Rightarrow> (Returned, s, w1\<lparr>errCh := errCh w1 @ [err]\<rparr>)
      | Return next \<Rightarrow>
          (case Marshal js next of
             (ns, Some err) \<Rightarrow> (Returned, s, w1\<lparr>logs := logs w1 @ [WarnInvalidInput next]\<rparr>)
           | (ns, None) \<Rightarrow>
               (case store_slot (list s) k (Some ns) of
                  Inl p \<Rightarrow> (Panicked p, s, w1)
                | Inr l \<Rightarrow>
                    Open_loop js fl rs (Suc k) vs (s\<lparr>list := l\<rparr>)
                      (w1\<lparr>tasks := tasks w1 @
                         (if ChangeTime v \<noteq> 0 then [MutationLoop k v] else []) @
                         [EmissionLoop k v]\<rparr>))))"

text \<open>
  \<^verbatim>\<open>s.list = make([][]byte, 100); s.list[0] = []byte{}\<close>: a hundred nil slices, the
  first replaced by the empty one.
\<close>

definition Open_alloc :: "canSignalSource \<Rightarrow> canSignalSource" where
  "Open_alloc s = s\<lparr>list := (replicate 100 None)[0 := Some []]\<rparr>"

text \<open>Reading \<^verbatim>\<open>s.conf.Signal\<close> through a nil \<^verbatim>\<open>conf\<close> (no \<^verbatim>\<open>Configure\<close> before) panics.\<close>

definition Open ::
  "('f32, 'f64) json_ops \<Rightarrow> ('f32, 'f64) float_ops \<Rightarrow> (nat \<Rightarrow> ('f32, 'f64) rand_source) \<Rightarrow>
     canSignalSource \<Rightarrow> ('f32, 'f64) world \<Rightarrow>
     open_end \<times> canSignalSource \<times> ('f32, 'f64) world" where
  "Open js fl rs s w =
     (case conf s of
        None \<Rightarrow> (Panicked NilDereference, Open_alloc s, w)
      | Some cfg \<Rightarrow> Open_loop js fl rs 0 (Signal cfg) (Open_alloc s) w)"

subsection \<open>The emission loop\<close>

text \<open>
  The second goroutine of the loop body: \<^verbatim>\<open>for { select { case <-cyclicT.C: ... case
  <-ctx.Done(): return } }\<close>. A run is given by the events the \<^verbatim>\<open>select\<close> sees: a tick
  of the ticker, with the contents of \<^verbatim>\<open>s.list[k]\<close> at that moment, or the end of the
  context.
\<close>

datatype 'a event = Tick 'a | Done

datatype loop_state = Waiting | Exited

text \<open>The body of \<^verbatim>\<open>case <-cyclicT.C\<close>; \<^verbatim>\<open>next\<close> starts as the empty map.\<close>

definition emission_tick ::
  "('f32, 'f64) json_ops \<Rightarrow> slot \<Rightarrow> ('f32, 'f64) world \<Rightarrow> ('f32, 'f64) world" where
  "emission_tick js sl w =
     (case Unmarshal js sl Map.empty of
        (next, err) \<Rightarrow>
          (let w1 = (case err of
                       Some e \<Rightarrow> w\<lparr>logs := logs w @ [WarnUnmarshalFailed sl]\<rparr>
                     | None \<Rightarrow> w);
               w2 = w1\<lparr>logs := logs w1 @ [DebugSendOut next]\<rparr>
           in w2\<lparr>consumer := consumer w2 @ [DefaultSourceTuple next None]\<rparr>))"

fun emission_loop ::
  "('f32, 'f64) json_ops \<Rightarrow> slot event list \<Rightarrow> ('f32, 'f64) world \<Rightarrow>
     loop_state \<times> ('f32, 'f64) world" where
  "emission_loop js [] w = (Waiting, w)"
| "emission_loop js (Tick sl # es) w = emission_loop js es (emission_tick js sl w)"
| "emission_loop js (Done # es) w = (Exited, w)"

subsection \<open>Close\<close>

text \<open>\<^verbatim>\<open>Close\<close> ignores its context and returns nil; the source is as it was.\<close>

definition Close :: "canSignalSource \<Rightarrow> canSignalSource \<times> error option" where
  "Close s = (s, None)"

subsection \<open>Vocabulary of the properties\<close>

text \<open>
  The errors \<^verbatim>\<open>Configure\<close> makes are the configuration errors: the wrapped decoding
  error and the three messages of the validation loop.
\<close>

definition ConfigError :: "error \<Rightarrow> bool" where
  "ConfigError e =
     (case e of
        ReadPropertiesFail err \<Rightarrow> True
      | CyclicTimeNotPositive n c \<Rightarrow> True
      | ChangeTimeNegative n c \<Rightarrow> True
      | MaxLessThanMin n \<Rightarrow> True
      | _ \<Rightarrow> False)"

text \<open>A signal that passes the three checks of the validation loop.\<close>

definition signal_ok :: "canSignal \<Rightarrow> bool" where
  "signal_ok v =
     (0 < sint (CyclicTime v) \<and> 0 \<le> sint (ChangeTime v) \<and>
      \<not> str_less (MaxValuePhy v) (MinValuePhy v))"

text \<open>The labels of the \<^verbatim>\<open>switch dataType\<close> of \<^verbatim>\<open>randomize\<close>, in the order of its cases.\<close>

definition data_types :: "string list" where
  "data_types = [''int32'', ''sint32'', ''int64'', ''uint32'', ''uint64'',
                 ''float'', ''float32'', ''double'', ''float64'']"

subsection \<open>Concrete inputs\<close>

definition mk_signal ::
  "string \<Rightarrow> string \<Rightarrow> string \<Rightarrow> string \<Rightarrow> 32 word \<Rightarrow> 32 word \<Rightarrow> canSignal" where
  "mk_signal n dt mn mx cyc chg =
     \<lparr>Name = n, DataType = dt, MinValuePhy = mn, MaxValuePhy = mx,
      CyclicTime = cyc, ChangeTime = chg\<rparr>"

text \<open>The signal \<^verbatim>\<open>Speed\<close> of the specification's first scenario.\<close>

definition speed :: canSignal where
  "speed = mk_signal ''Speed'' ''int32'' ''0'' ''100'' 1000 0"

text \<open>
  Stand-ins for the packages on concrete runs of the integer paths: a floating-point
  parser that refuses every literal, a random source whose every draw is zero, a
  \<^verbatim>\<open>json\<close> whose \<^verbatim>\<open>Marshal\<close> gives \<^verbatim>\<open>{}\<close> and whose \<^verbatim>\<open>Unmarshal\<close> refuses the nil and the empty
  input (as \<^verbatim>\<open>encoding/json\<close> does) and leaves the map alone otherwise.
\<close>

definition no_float :: "(unit, unit) float_ops" where
  "no_float = \<lparr>parse_float = (\<lambda>s bitSize. ((), Some ErrSyntax)),
     f64_sub = (\<lambda>a b. ()), f64_mul = (\<lambda>a b. ()), f64_add = (\<lambda>a b. ()),
     to_float32 = (\<lambda>a. ()), f32_mul = (\<lambda>a b. ()), f32_add = (\<lambda>a b. ())\<rparr>"

definition zero_draws :: "(unit, unit) rand_source" where
  "zero_draws = \<lparr>draw_Int31n = (\<lambda>n. 0), draw_Int63n = (\<lambda>n. 0), draw_Uint32 = 0,
     draw_Uint64 = 0, draw_Float32 = (), draw_Float64 = ()\<rparr>"

definition json_stub :: "(unit, unit) json_ops" where
  "json_stub = \<lparr>Marshal = (\<lambda>m. ([123, 125], None)),
     Unmarshal = (\<lambda>data next.
       if data = None \<or> data = Some []
       then (next, Some (ExternalError ''unexpected end of JSON input''))
       else (next, None))\<rparr>"

definition empty_world :: "(unit, unit) world" where
  "empty_world = \<lparr>logs = [], errCh = [], consumer = [], tasks = []\<rparr>"

section \<open>Properties\<close>

lemmas strconv_eval =
  ParseInt_def ParseUint_def is_digit_def digit_val_def maxVal_def cutoff10_def
  word_le_nat_alt word_less_nat_alt

lemmas randomize_eval =
  randomize_def strconv_eval go_mod_def rand_Int31n_def rand_Int63n_def

subsection \<open>Configure\<close>

lemma check_signals_None_iff:
  "check_signals vs = None \<longleftrightarrow> list_all signal_ok vs"
  by (induction vs) (auto simp: signal_ok_def)

lemma check_signals_ConfigError:
  "check_signals vs = Some e \<Longrightarrow> ConfigError e"
  by (induction vs) (auto simp: ConfigError_def split: if_splits)

lemma Configure_fails_iff:
  assumes "MapToStruct props = Inr cfg"
  shows "(\<exists>e. Configure MapToStruct s topic props = (s, Some e) \<and> ConfigError e)
           \<longleftrightarrow> \<not> list_all signal_ok (Signal cfg)"
proof (cases "check_signals (Signal cfg)")
  case None
  then show ?thesis
    using assms check_signals_None_iff [of "Signal cfg"] by (simp add: Configure_def)
next
  case (Some e)
  then show ?thesis
    using assms check_signals_None_iff [of "Signal cfg"] check_signals_ConfigError [OF Some]
    by (simp add: Configure_def)
qed

lemma Configure_succeeds_iff:
  assumes "MapToStruct props = Inr cfg"
  shows "Configure MapToStruct s topic props = (s\<lparr>conf := Some cfg\<rparr>, None)
           \<longleftrightarrow> list_all signal_ok (Signal cfg)"
  using assms check_signals_None_iff [of "Signal cfg"]
  by (cases "check_signals (Signal cfg)") (simp_all add: Configure_def)

lemma Configure_decode_error:
  "MapToStruct props = Inl err \<Longrightarrow>
     Configure MapToStruct s topic props = (s, Some (ReadPropertiesFail err))"
  by (simp add: Configure_def)

text \<open>
  C1. The claim: a signal whose \<^verbatim>\<open>maxValuePhy\<close> is numerically below its \<^verbatim>\<open>minValuePhy\<close>
  makes \<^verbatim>\<open>Configure\<close> fail, and bounds that are numerically in order are accepted.
  The code compares the two literals as strings. With min \<^verbatim>\<open>"10"\<close> and max \<^verbatim>\<open>"9"\<close> (both
  parse as int32, and 9 < 10) \<^verbatim>\<open>Configure\<close> succeeds and stores the configuration; with
  min \<^verbatim>\<open>"9"\<close> and max \<^verbatim>\<open>"10"\<close>, which are in order, it fails with the message that
  \<^verbatim>\<open>maxValuePhy\<close> must be greater than \<^verbatim>\<open>minValuePhy\<close>.
\<close>

theorem Configure_compares_bounds_as_strings:
  "ParseInt ''9'' 32 = (9, None) \<and> ParseInt ''10'' 32 = (10, None) \<and>
   Configure Inr CanSignal ''t'' \<lparr>Signal = [mk_signal ''s'' ''int32'' ''10'' ''9'' 1000 0]\<rparr>
     = (CanSignal\<lparr>conf := Some \<lparr>Signal = [mk_signal ''s'' ''int32'' ''10'' ''9'' 1000 0]\<rparr>\<rparr>,
        None) \<and>
   Configure Inr CanSignal ''t'' \<lparr>Signal = [mk_signal ''s'' ''int32'' ''9'' ''10'' 1000 0]\<rparr>
     = (CanSignal, Some (MaxLessThanMin ''s''))"
  by (simp add: strconv_eval Configure_def mk_signal_def)

text \<open>
  C7. For every configuration that decodes and holds a signal whose \<^verbatim>\<open>cyclicTime\<close> is zero
  or negative, \<^verbatim>\<open>Configure\<close> returns a configuration error and leaves the source as it was.
\<close>

theorem Configure_cyclicTime_not_positive:
  assumes "MapToStruct props = Inr cfg"
    and "\<exists>v \<in> set (Signal cfg). sint (CyclicTime v) \<le> 0"
  shows "\<exists>e. Configure MapToStruct s topic props = (s, Some e) \<and> ConfigError e"
proof -
  from assms(2) obtain v where "v \<in> set (Signal cfg)" and "\<not> signal_ok v"
    by (auto simp: signal_ok_def)
  then have "\<not> list_all signal_ok (Signal cfg)"
    by (auto simp: list_all_iff)
  with Configure_fails_iff [of MapToStruct props cfg s topic] assms(1) show ?thesis
    by blast
qed

text \<open>
  The theorem at a configuration of two signals, the second with a \<^verbatim>\<open>cyclicTime\<close> of 0.
\<close>

theorem Configure_cyclicTime_not_positive_witness:
  "\<exists>e. Configure Inr CanSignal ''t''
          \<lparr>Signal = [speed, mk_signal ''Temp'' ''float64'' ''-10'' ''40'' 0 2000]\<rparr>
         = (CanSignal, Some e) \<and> ConfigError e"
  by (rule Configure_cyclicTime_not_positive
        [where cfg = "\<lparr>Signal = [speed, mk_signal ''Temp'' ''float64'' ''-10'' ''40'' 0 2000]\<rparr>"])
     (simp_all add: mk_signal_def)

text \<open>
  C8. For every configuration that decodes and holds a signal whose \<^verbatim>\<open>changeTime\<close> is
  negative, \<^verbatim>\<open>Configure\<close> returns a configuration error; a \<^verbatim>\<open>changeTime\<close> of exactly zero is
  accepted: when every signal has a \<^verbatim>\<open>changeTime\<close> of zero or more and passes the two other
  checks, \<^verbatim>\<open>Configure\<close> returns nil and stores the configuration.
\<close>

theorem Configure_changeTime:
  assumes "MapToStruct props = Inr cfg"
  shows "((\<exists>v \<in> set (Signal cfg). sint (ChangeTime v) < 0) \<longrightarrow>
            (\<exists>e. Configure MapToStruct s topic props = (s, Some e) \<and> ConfigError e)) \<and>
         ((\<forall>v \<in> set (Signal cfg). 0 \<le> sint (ChangeTime v) \<and> 0 < sint (CyclicTime v) \<and>
              \<not> str_less (MaxValuePhy v) (MinValuePhy v)) \<longrightarrow>
            Configure MapToStruct s topic props = (s\<lparr>conf := Some cfg\<rparr>, None))"
proof (intro conjI impI)
  assume "\<exists>v \<in> set (Signal cfg). sint (ChangeTime v) < 0"
  then obtain v where "v \<in> set (Signal cfg)" and "\<not> signal_ok v"
    by (auto simp: signal_ok_def)
  then have "\<not> list_all signal_ok (Signal cfg)"
    by (auto simp: list_all_iff)
  with Configure_fails_iff [of MapToStruct props cfg s topic] assms
  show "\<exists>e. Configure MapToStruct s topic props = (s, Some e) \<and> ConfigError e"
    by blast
next
  assume "\<forall>v \<in> set (Signal cfg). 0 \<le> sint (ChangeTime v) \<and> 0 < sint (CyclicTime v) \<and>
              \<not> str_less (MaxValuePhy v) (MinValuePhy v)"
  then have "list_all signal_ok (Signal cfg)"
    by (auto simp: list_all_iff signal_ok_def)
  with Configure_succeeds_iff [of MapToStruct props cfg s topic] assms
  show "Configure MapToStruct s topic props = (s\<lparr>conf := Some cfg\<rparr>, None)"
    by blast
qed

text \<open>
  The theorem at a signal with a \<^verbatim>\<open>changeTime\<close> of -5, and at the signal \<^verbatim>\<open>Speed\<close>, whose
  \<^verbatim>\<open>changeTime\<close> is 0.
\<close>

theorem Configure_changeTime_witness:
  "(\<exists>e. Configure Inr CanSignal ''t''
           \<lparr>Signal = [mk_signal ''Temp'' ''float64'' ''-10'' ''40'' 500 (- 5)]\<rparr>
          = (CanSignal, Some e) \<and> ConfigError e) \<and>
   Configure Inr CanSignal ''t'' \<lparr>Signal = [speed]\<rparr>
     = (CanSignal\<lparr>conf := Some \<lparr>Signal = [speed]\<rparr>\<rparr>, None)"
  using
    Configure_changeTime [of Inr "\<lparr>Signal = [mk_signal ''Temp'' ''float64'' ''-10'' ''40'' 500 (- 5)]\<rparr>"
      "\<lparr>Signal = [mk_signal ''Temp'' ''float64'' ''-10'' ''40'' 500 (- 5)]\<rparr>" CanSignal "''t''"]
    Configure_changeTime [of Inr "\<lparr>Signal = [speed]\<rparr>" "\<lparr>Signal = [speed]\<rparr>" CanSignal "''t''"]
  by (simp add: mk_signal_def speed_def)

subsection \<open>randomize\<close>

text \<open>The parsers fail with a \<^verbatim>\<open>*NumError\<close> that carries their name and the literal.\<close>

lemma ParseUint_error_kind:
  "ParseUint s b = (n, Some e) \<Longrightarrow> \<exists>k. e = NumError ''ParseUint'' s k"
  by (auto simp: ParseUint_def split: if_splits prod.splits option.splits)

lemma ParseInt_error_kind:
  "ParseInt s b = (n, Some e) \<Longrightarrow> \<exists>k. e = NumError ''ParseInt'' s k"
  by (auto simp: ParseInt_def Let_def
           split: if_splits prod.splits option.splits error.splits strconv_err.splits)

lemma ParseFloat_error_kind:
  "ParseFloat fl s b = (x, Some e) \<Longrightarrow> \<exists>k. e = NumError ''ParseFloat'' s k"
  by (auto simp: ParseFloat_def split: prod.splits option.splits)

lemma randomize_unknown:
  "dt \<notin> set data_types \<Longrightarrow> randomize fl r name dt mn mx = Fail (UnknownDataType dt)"
  by (simp add: randomize_def data_types_def)

lemma randomize_int32_not_unknown:
  "randomize fl r name ''int32'' mn mx \<noteq> Fail (UnknownDataType x)"
  by (auto simp: randomize_def split: prod.splits option.splits sum.splits
           dest: ParseInt_error_kind)

lemma randomize_sint32_not_unknown:
  "randomize fl r name ''sint32'' mn mx \<noteq> Fail (UnknownDataType x)"
  by (auto simp: randomize_def split: prod.splits option.splits sum.splits
           dest: ParseInt_error_kind)

lemma randomize_int64_not_unknown:
  "randomize fl r name ''int64'' mn mx \<noteq> Fail (UnknownDataType x)"
  by (auto simp: randomize_def split: prod.splits option.splits sum.splits
           dest: ParseInt_error_kind)

lemma randomize_uint32_not_unknown:
  "randomize fl r name ''uint32'' mn mx \<noteq> Fail (UnknownDataType x)"
  by (auto simp: randomize_def split: prod.splits option.splits sum.splits
           dest: ParseUint_error_kind)

lemma randomize_uint64_not_unknown:
  "randomize fl r name ''uint64'' mn mx \<noteq> Fail (UnknownDataType x)"
  by (auto simp: randomize_def split: prod.splits option.splits sum.splits
           dest: ParseUint_error_kind)

lemma randomize_float_not_unknown:
  "randomize fl r name ''float'' mn mx \<noteq> Fail (UnknownDataType x)"
  by (auto simp: randomize_def split: prod.splits option.splits sum.splits
           dest: ParseFloat_error_kind)

lemma randomize_float32_not_unknown:
  "randomize fl r name ''float32'' mn mx \<noteq> Fail (UnknownDataType x)"
  by (auto simp: randomize_def split: prod.splits option.splits sum.splits
           dest: ParseFloat_error_kind)

lemma randomize_double_not_unknown:
  "randomize fl r name ''double'' mn mx \<noteq> Fail (UnknownDataType x)"
  by (auto simp: randomize_def split: prod.splits option.splits sum.splits
           dest: ParseFloat_error_kind)

lemma randomize_float64_not_unknown:
  "randomize fl r name ''float64'' mn mx \<noteq> Fail (UnknownDataType x)"
  by (auto simp: randomize_def split: prod.splits option.splits sum.splits
           dest: ParseFloat_error_kind)

lemma randomize_known:
  assumes "dt \<in> set data_types"
  shows "randomize fl r name dt mn mx \<noteq> Fail (UnknownDataType x)"
proof -
  from assms have
    "dt = ''int32'' \<or> dt = ''sint32'' \<or> dt = ''int64'' \<or> dt = ''uint32'' \<or> dt = ''uint64'' \<or>
     dt = ''float'' \<or> dt = ''float32'' \<or> dt = ''double'' \<or> dt = ''float64''"
    by (simp add: data_types_def)
  then show ?thesis
  proof (elim disjE)
  qed (simp_all only: randomize_int32_not_unknown randomize_sint32_not_unknown
       randomize_int64_not_unknown randomize_uint32_not_unknown randomize_uint64_not_unknown
       randomize_float_not_unknown randomize_float32_not_unknown
       randomize_double_not_unknown randomize_float64_not_unknown not_False_eq_True)
qed

text \<open>
  C6, as amended. The \<^verbatim>\<open>switch\<close> of \<^verbatim>\<open>randomize\<close> has nine labels: the six kinds \<^verbatim>\<open>int32\<close>,
  \<^verbatim>\<open>int64\<close>, \<^verbatim>\<open>uint32\<close>, \<^verbatim>\<open>uint64\<close>, \<^verbatim>\<open>float32\<close>, \<^verbatim>\<open>float64\<close> and the aliases \<^verbatim>\<open>sint32\<close>, \<^verbatim>\<open>float\<close>,
  \<^verbatim>\<open>double\<close>. For every \<^verbatim>\<open>dataType\<close> that is none of the nine, \<^verbatim>\<open>randomize\<close> fails with the
  unknown-data-type error of that string and returns no map; for each of the nine it
  never returns an unknown-data-type error.
\<close>

theorem randomize_unknown_data_type:
  "(dt \<notin> set data_types \<longrightarrow> randomize fl r name dt mn mx = Fail (UnknownDataType dt)) \<and>
   (dt \<in> set data_types \<longrightarrow> (\<forall>x. randomize fl r name dt mn mx \<noteq> Fail (UnknownDataType x)))"
  using randomize_unknown [of dt fl r name mn mx] randomize_known [of dt fl r name mn mx]
  by blast

text \<open>
  The theorem at the \<^verbatim>\<open>dataType\<close> \<^verbatim>\<open>"unknown_type"\<close> of the specification's scenario, and
  at \<^verbatim>\<open>"double"\<close>.
\<close>

theorem randomize_unknown_data_type_witness:
  "randomize no_float zero_draws ''s'' ''unknown_type'' ''0'' ''10''
     = Fail (UnknownDataType ''unknown_type'') \<and>
   (\<forall>x. randomize no_float zero_draws ''s'' ''double'' ''0'' ''10'' \<noteq> Fail (UnknownDataType x))"
  using randomize_unknown_data_type [of "''unknown_type''" no_float zero_draws "''s''" "''0''" "''10''"]
        randomize_unknown_data_type [of "''double''" no_float zero_draws "''s''" "''0''" "''10''"]
  by (simp add: data_types_def)

text \<open>
  C6 as stated fails: \<^verbatim>\<open>"sint32"\<close> is not one of the six kinds, and \<^verbatim>\<open>randomize\<close> takes the
  \<^verbatim>\<open>int32\<close> branch for it and returns a map.
\<close>

theorem randomize_sint32_supported:
  "''sint32'' \<notin> {''int32'', ''int64'', ''uint32'', ''uint64'', ''float32'', ''float64''} \<and>
   randomize no_float zero_draws ''s'' ''sint32'' ''0'' ''10'' = Return [''s'' \<mapsto> Int32 0]"
  by (simp add: randomize_eval zero_draws_def)

text \<open>
  Equal bounds: whatever the two literals are, when they parse to the same value the
  width is 0 and the call panics.
\<close>

lemma randomize_equal_int32:
  assumes "ParseInt mn 32 = (a, None)" and "ParseInt mx 32 = (a, None)"
  shows "randomize fl r name ''int32'' mn mx = Panic (InvalidArgument ''invalid argument to Int31n'')"
  using assms by (simp add: randomize_def rand_Int31n_def)

lemma randomize_equal_int64:
  assumes "ParseInt mn 64 = (a, None)" and "ParseInt mx 64 = (a, None)"
  shows "randomize fl r name ''int64'' mn mx = Panic (InvalidArgument ''invalid argument to Int63n'')"
  using assms by (simp add: randomize_def rand_Int63n_def)

lemma randomize_equal_uint32:
  assumes "ParseUint mn 32 = (a, None)" and "ParseUint mx 32 = (a, None)"
  shows "randomize fl r name ''uint32'' mn mx = Panic DivideByZero"
  using assms by (simp add: randomize_def go_mod_def)

lemma randomize_equal_uint64:
  assumes "ParseUint mn 64 = (a, None)" and "ParseUint mx 64 = (a, None)"
  shows "randomize fl r name ''uint64'' mn mx = Panic DivideByZero"
  using assms by (simp add: randomize_def go_mod_def)


text \<open>
  C2. The claim: with equal bounds an integer kind fails with a range error or returns
  the minimum, and does not panic. In the code the width \<^verbatim>\<open>max - min\<close> is 0: \<^verbatim>\<open>rand.Int31n(0)\<close>
  and \<^verbatim>\<open>rand.Int63n(0)\<close> panic with an invalid argument, and for the unsigned kinds the
  remainder by 0 is a run-time panic. Whatever the random source draws:
\<close>

theorem randomize_equal_bounds_panics:
  "randomize fl r name ''int32'' ''5'' ''5''
     = Panic (InvalidArgument ''invalid argument to Int31n'') \<and>
   randomize fl r name ''int64'' ''5'' ''5''
     = Panic (InvalidArgument ''invalid argument to Int63n'') \<and>
   randomize fl r name ''uint32'' ''5'' ''5'' = Panic DivideByZero \<and>
   randomize fl r name ''uint64'' ''5'' ''5'' = Panic DivideByZero"
  by (simp add: randomize_eval)

text \<open>
  The range of the parsed values: \<^verbatim>\<open>ParseUint(s, 10, 32)\<close> is below \<open>2\<^sup>3\<^sup>2\<close>, and
  \<^verbatim>\<open>ParseInt(s, 10, 32)\<close> is an int32, which the conversion \<^verbatim>\<open>int32(...)\<close> leaves as it is.
\<close>

lemma ParseUint_loop_le:
  "ParseUint_loop b n s = (m, None) \<Longrightarrow> n \<le> maxVal b \<Longrightarrow> m \<le> maxVal b"
proof (induction s arbitrary: n)
  case Nil
  then show ?case by simp
next
  case (Cons c cs)
  then show ?case
    by (auto simp: Let_def split: if_splits)
qed

lemma ParseUint_le:
  assumes "ParseUint s b = (a, None)"
  shows "a \<le> maxVal b"
proof -
  from assms have "ParseUint_loop b 0 s = (a, None)"
    by (auto simp: ParseUint_def split: if_splits prod.splits option.splits)
  then show ?thesis by (rule ParseUint_loop_le) simp
qed

lemma unat_maxVal_32: "unat (maxVal 32) = 4294967295"
  by (simp add: maxVal_def)


lemma sint_diff_exact:
  fixes a b :: "'a::len word"
  assumes "- (2 ^ (LENGTH('a) - 1)) \<le> sint b - sint a" and "sint b - sint a < 2 ^ (LENGTH('a) - 1)"
  shows "sint (b - a) = sint b - sint a"
  using assms by (simp add: sint_word_ariths signed_take_bit_int_eq_self)

lemma sint_add_exact:
  fixes a b :: "'a::len word"
  assumes "- (2 ^ (LENGTH('a) - 1)) \<le> sint a + sint b" and "sint a + sint b < 2 ^ (LENGTH('a) - 1)"
  shows "sint (a + b) = sint a + sint b"
  using assms by (simp add: sint_word_ariths signed_take_bit_int_eq_self)

lemma sint_small_uint:
  fixes w :: "64 word"
  assumes "w \<le> 2147483648"
  shows "sint w = uint w" and "uint w \<le> 2147483648"
proof -
  from assms show u: "uint w \<le> 2147483648" by (simp add: word_le_def)
  have "- 9223372036854775808 \<le> uint w \<and> uint w < 9223372036854775808"
    using u uint_ge_0 [of w] by linarith
  then have "signed_take_bit 63 (uint w) = uint w"
    by (intro signed_take_bit_int_eq_self) simp_all
  then show "sint w = uint w"
    by (simp add: sint_uint)
qed

lemma ParseInt_32_cases:
  assumes "ParseInt s 32 = (a, None)"
  shows "a < 2147483648 \<or> - a \<le> 2147483648"
  using assms
  by (auto simp: ParseInt_def Let_def
           split: if_splits prod.splits option.splits error.splits strconv_err.splits)

lemma ParseInt_32_range:
  assumes "ParseInt s 32 = (a, None)"
  shows "- 2147483648 \<le> sint a \<and> sint a < 2147483648"
  using ParseInt_32_cases [OF assms]
proof
  assume "a < 2147483648"
  then have "a \<le> 2147483648" "uint a < 2147483648"
    by (simp_all add: word_less_def word_le_def)
  with sint_small_uint(1) [of a] have "sint a = uint a" "uint a < 2147483648"
    by simp_all
  then show ?thesis using uint_ge_0 [of a] by linarith
next
  assume le: "- a \<le> 2147483648"
  have "sint (- (- a)) = signed_take_bit 63 (- sint (- a))"
    by (simp only: sint_word_ariths) simp
  moreover have "- 9223372036854775808 \<le> - sint (- a) \<and> - sint (- a) < 9223372036854775808"
    using sint_small_uint [OF le] uint_ge_0 [of "- a"] by linarith
  then have "signed_take_bit 63 (- sint (- a)) = - sint (- a)"
    by (intro signed_take_bit_int_eq_self) simp_all
  ultimately have "sint a = - uint (- a)"
    using sint_small_uint(1) [OF le] by simp
  then show ?thesis
    using sint_small_uint(2) [OF le] uint_ge_0 [of "- a"] by linarith
qed

lemma sint_int32_conversion:
  fixes a :: "64 word"
  assumes "- 2147483648 \<le> sint a" and "sint a < 2147483648"
  shows "sint (ucast a :: 32 word) = sint a"
proof -
  have "sint (ucast a :: 32 word) = signed_take_bit 31 (signed_take_bit 63 (uint a))"
    by (simp add: signed_ucast_eq)
  also have "\<dots> = signed_take_bit 31 (sint a)"
    by (simp only: sint_uint) simp
  also have "\<dots> = sint a"
    using assms by (simp add: signed_take_bit_int_eq_self)
  finally show ?thesis .
qed

text \<open>
  Where the width does not overflow, the value is within the bounds: always for the
  unsigned kinds, and for the signed kinds when \<^verbatim>\<open>max - min\<close> is below \<open>2\<^sup>3\<^sup>1\<close> (int32) or
  \<open>2\<^sup>6\<^sup>3\<close> (int64) and the random source keeps the contract of \<^verbatim>\<open>Int31n\<close> and \<^verbatim>\<open>Int63n\<close>.
\<close>

lemma randomize_uint64_in_range:
  assumes "ParseUint mn 64 = (a, None)" and "ParseUint mx 64 = (b, None)" and "a < b"
  shows "\<exists>v. randomize fl r name ''uint64'' mn mx = Return [name \<mapsto> Uint64 v] \<and> a \<le> v \<and> v < b"
proof -
  let ?d = "draw_Uint64 r mod (b - a)"
  from assms(3) have ab: "unat a < unat b" by (simp add: word_less_nat_alt)
  from assms(3) have sub: "unat (b - a) = unat b - unat a"
    by (simp add: unat_sub)
  with ab have nz: "b - a \<noteq> 0" by (metis unat_gt_0 zero_less_diff)
  have d: "unat ?d < unat b - unat a"
    using sub ab by (simp add: unat_mod)
  have "unat b < 2 ^ LENGTH(64)" by (rule unsigned_less)
  with d have "unat ?d + unat a < 2 ^ LENGTH(64)" by simp
  then have v: "unat (?d + a) = unat ?d + unat a"
    by (simp only: unat_add_lem)
  have "a \<le> ?d + a" "?d + a < b"
    using v d by (simp_all add: word_le_nat_alt word_less_nat_alt)
  moreover have "randomize fl r name ''uint64'' mn mx = Return [name \<mapsto> Uint64 (?d + a)]"
    using assms(1,2) nz by (simp add: randomize_def go_mod_def)
  ultimately show ?thesis by blast
qed

lemma randomize_uint32_in_range:
  assumes "ParseUint mn 32 = (a, None)" and "ParseUint mx 32 = (b, None)" and "a < b"
  shows "\<exists>v. randomize fl r name ''uint32'' mn mx = Return [name \<mapsto> Uint32 v] \<and>
             unat a \<le> unat v \<and> unat v < unat b"
proof -
  let ?w = "ucast (b - a) :: 32 word"
  let ?d = "draw_Uint32 r mod ?w"
  from assms(3) have ab: "unat a < unat b" by (simp add: word_less_nat_alt)
  have b32: "unat b < 2 ^ 32"
    using ParseUint_le [OF assms(2)] by (simp add: word_le_nat_alt unat_maxVal_32)
  from assms(3) have sub: "unat (b - a) = unat b - unat a"
    by (simp add: unat_sub)
  have w: "unat ?w = unat b - unat a"
    using sub b32 by (simp add: unsigned_ucast_eq take_bit_nat_eq_self)
  with ab have nz: "?w \<noteq> 0" by (metis unat_gt_0 zero_less_diff)
  have a32: "unat (ucast a :: 32 word) = unat a"
    using ab b32 by (simp add: unsigned_ucast_eq take_bit_nat_eq_self)
  have d: "unat ?d < unat b - unat a"
    using w ab by (simp add: unat_mod)
  have "unat ?d + unat (ucast a :: 32 word) < 2 ^ LENGTH(32)"
    using d b32 a32 by simp
  then have "unat (?d + ucast a) = unat ?d + unat (ucast a :: 32 word)"
    by (simp only: unat_add_lem)
  with a32 d have "unat a \<le> unat (?d + ucast a)" "unat (?d + ucast a) < unat b"
    by simp_all
  moreover have "randomize fl r name ''uint32'' mn mx = Return [name \<mapsto> Uint32 (?d + ucast a)]"
    using assms(1,2) nz by (simp add: randomize_def go_mod_def)
  ultimately show ?thesis by blast
qed

lemma randomize_int64_in_range:
  assumes "ParseInt mn 64 = (a, None)" and "ParseInt mx 64 = (b, None)"
    and "sint a < sint b" and "sint b - sint a < 2 ^ 63" and "rand_contract r"
  shows "\<exists>v. randomize fl r name ''int64'' mn mx = Return [name \<mapsto> Int64 v] \<and>
             sint a \<le> sint v \<and> sint v < sint b"
proof -
  let ?n = "b - a"
  let ?d = "draw_Int63n r ?n"
  have n: "sint ?n = sint b - sint a"
    using assms(3,4) by (simp add: sint_diff_exact)
  with assms(3) have pos: "0 < sint ?n" by simp
  with assms(5) have d: "0 \<le> sint ?d" "sint ?d < sint ?n"
    by (simp_all add: rand_contract_def)
  have "- (2 ^ 63) \<le> sint a" "sint b < 2 ^ 63"
    using sint_ge [of a] sint_lt [of b] by simp_all
  with d n have v: "sint (?d + a) = sint ?d + sint a"
    by (simp add: sint_add_exact)
  have "randomize fl r name ''int64'' mn mx = Return [name \<mapsto> Int64 (?d + a)]"
    using assms(1,2) pos by (simp add: randomize_def rand_Int63n_def)
  moreover have "sint a \<le> sint (?d + a)" "sint (?d + a) < sint b"
    using v d n by simp_all
  ultimately show ?thesis by blast
qed

lemma randomize_int32_in_range:
  assumes "ParseInt mn 32 = (a, None)" and "ParseInt mx 32 = (b, None)"
    and "sint a < sint b" and "sint b - sint a < 2 ^ 31" and "rand_contract r"
    and "dt = ''int32'' \<or> dt = ''sint32''"
  shows "\<exists>v. randomize fl r name dt mn mx = Return [name \<mapsto> Int32 v] \<and>
             sint a \<le> sint v \<and> sint v < sint b"
proof -
  let ?a = "ucast a :: 32 word"
  let ?b = "ucast b :: 32 word"
  let ?n = "?b - ?a"
  let ?d = "draw_Int31n r ?n"
  have a: "sint ?a = sint a" and b: "sint ?b = sint b"
    using ParseInt_32_range [OF assms(1)] ParseInt_32_range [OF assms(2)]
    by (simp_all add: sint_int32_conversion)
  have n: "sint ?n = sint b - sint a"
    using assms(3,4) a b by (simp add: sint_diff_exact)
  with assms(3) have pos: "0 < sint ?n" by simp
  with assms(5) have d: "0 \<le> sint ?d" "sint ?d < sint ?n"
    by (simp_all add: rand_contract_def)
  have "- (2 ^ 31) \<le> sint ?a" "sint ?b < 2 ^ 31"
    using sint_ge [of ?a] sint_lt [of ?b] by simp_all
  with d n a b have v: "sint (?d + ?a) = sint ?d + sint a"
    by (simp add: sint_add_exact)
  have "randomize fl r name dt mn mx = Return [name \<mapsto> Int32 (?d + ?a)]"
    using assms(1,2,6) pos by (auto simp: randomize_def rand_Int31n_def)
  moreover have "sint a \<le> sint (?d + ?a)" "sint (?d + ?a) < sint b"
    using v d n by simp_all
  ultimately show ?thesis by blast
qed

lemma rand_contract_zero_draws: "rand_contract zero_draws"
  by (simp add: rand_contract_def zero_draws_def)

text \<open>
  C3. The claim: for an integer kind whose bounds parse with min < max, \<^verbatim>\<open>randomize\<close>
  returns \<open>{name: v}\<close> with min \<open>\<le>\<close> v < max. For the signed kinds the width \<^verbatim>\<open>max - min\<close> is
  computed in the kind's own width and wraps: from the least to the greatest int32
  (and int64) it is -1, and \<^verbatim>\<open>rand.Int31n\<close> (\<^verbatim>\<open>rand.Int63n\<close>) panics.
\<close>

theorem randomize_wide_signed_range_panics:
  "ParseInt ''-2147483648'' 32 = (- 2147483648, None) \<and>
   ParseInt ''2147483647'' 32 = (2147483647, None) \<and>
   randomize fl r name ''int32'' ''-2147483648'' ''2147483647''
     = Panic (InvalidArgument ''invalid argument to Int31n'') \<and>
   randomize fl r name ''int64'' ''-9223372036854775808'' ''9223372036854775807''
     = Panic (InvalidArgument ''invalid argument to Int63n'')"
  by (simp add: randomize_eval)

text \<open>
  The floating-point kinds: when both bounds parse, the value is the draw from \<open>[0, 1)\<close>
  times the width plus the minimum, in the operations of the platform. For \<^verbatim>\<open>float32\<close>
  the width is the \<^verbatim>\<open>float64\<close> difference converted to \<^verbatim>\<open>float32\<close>.
\<close>

lemma randomize_float64_value:
  assumes "ParseFloat fl mn 64 = (lo, None)" and "ParseFloat fl mx 64 = (hi, None)"
    and "dt = ''double'' \<or> dt = ''float64''"
  shows "randomize fl r name dt mn mx =
           Return [name \<mapsto> Float64 (f64_add fl (f64_mul fl (draw_Float64 r) (f64_sub fl hi lo)) lo)]"
  using assms by (auto simp: randomize_def)

lemma randomize_float32_value:
  assumes "ParseFloat fl mn 32 = (lo, None)" and "ParseFloat fl mx 32 = (hi, None)"
    and "dt = ''float'' \<or> dt = ''float32''"
  shows "randomize fl r name dt mn mx =
           Return [name \<mapsto> Float32 (f32_add fl
             (f32_mul fl (draw_Float32 r) (to_float32 fl (f64_sub fl hi lo))) (to_float32 fl lo))]"
  using assms by (auto simp: randomize_def)

subsection \<open>Open\<close>

lemma randomize_panic_kinds:
  "randomize fl r name dt mn mx = Panic p \<Longrightarrow>
     p = InvalidArgument ''invalid argument to Int31n'' \<or>
     p = InvalidArgument ''invalid argument to Int63n'' \<or> p = DivideByZero"
  unfolding randomize_def rand_Int31n_def rand_Int63n_def go_mod_def
  by (simp split: if_splits prod.splits option.splits sum.splits)

lemma length_Open_alloc: "length (list (Open_alloc s)) = 100"
  by (simp add: Open_alloc_def)

lemma store_slot_Inr_iff: "(\<exists>l. store_slot xs k ns = Inr l) \<longleftrightarrow> k < length xs"
  by (simp add: store_slot_def)

text \<open>No round of the loop changes the length of \<^verbatim>\<open>s.list\<close>.\<close>

lemma Open_loop_length:
  "length (list (fst (snd (Open_loop js fl rs k vs s w)))) = length (list s)"
proof (induction vs arbitrary: k s w)
  case Nil
  show ?case by simp
next
  case (Cons v vs)
  show ?case
    by (simp add: Let_def store_slot_def Cons.IH
             split: result.splits prod.splits option.splits)
qed

text \<open>
  With more signals left than free slots, and every round up to the first one beyond
  the slice getting its value and its encoding, that round's store panics.
\<close>

lemma Open_loop_overflow:
  assumes "length (list s) = n" and "k \<le> n" and "n - k < length vs"
    and "\<forall>i \<le> n - k. \<exists>next ns.
           randomize fl (rs (k + i)) (Name (vs ! i)) (DataType (vs ! i))
             (MinValuePhy (vs ! i)) (MaxValuePhy (vs ! i)) = Return next \<and>
           Marshal js next = (ns, None)"
  shows "fst (Open_loop js fl rs k vs s w) = Panicked (IndexOutOfRange n n)"
  using assms
proof (induction vs arbitrary: k s w)
  case Nil
  then show ?case by simp
next
  case (Cons v vs)
  from Cons.prems(4) [rule_format, of 0] obtain "next" ns where
    r: "randomize fl (rs k) (Name v) (DataType v) (MinValuePhy v) (MaxValuePhy v) = Return next"
    and m: "Marshal js next = (ns, None)"
    by auto
  show ?case
  proof (cases "k < n")
    case False
    with Cons.prems(1,2) r m show ?thesis
      by (simp add: store_slot_def)
  next
    case True
    have ih: "fst (Open_loop js fl rs (Suc k) vs (s\<lparr>list := (list s)[k := Some ns]\<rparr>) w')
                = Panicked (IndexOutOfRange n n)" for w'
    proof (rule Cons.IH)
      show "length (list (s\<lparr>list := (list s)[k := Some ns]\<rparr>)) = n"
        using Cons.prems(1) by simp
      show "Suc k \<le> n" using True by simp
      show "n - Suc k < length vs" using Cons.prems(3) True by simp
      show "\<forall>i \<le> n - Suc k. \<exists>next ns.
           randomize fl (rs (Suc k + i)) (Name (vs ! i)) (DataType (vs ! i))
             (MinValuePhy (vs ! i)) (MaxValuePhy (vs ! i)) = Return next \<and>
           Marshal js next = (ns, None)"
      proof (intro allI impI)
        fix i assume "i \<le> n - Suc k"
        then have "Suc i \<le> n - k" using True by simp
        from Cons.prems(4) [rule_format, OF this] show "\<exists>next ns.
           randomize fl (rs (Suc k + i)) (Name (vs ! i)) (DataType (vs ! i))
             (MinValuePhy (vs ! i)) (MaxValuePhy (vs ! i)) = Return next \<and>
           Marshal js next = (ns, None)"
          by simp
      qed
    qed
    from True Cons.prems(1) r m show ?thesis
      by (simp add: store_slot_def ih)
  qed
qed

text \<open>With no more signals left than free slots, no store is out of range.\<close>

lemma Open_loop_in_bounds:
  assumes "k + length vs \<le> length (list s)"
  shows "fst (Open_loop js fl rs k vs s w) \<noteq> Panicked (IndexOutOfRange i m)"
  using assms
proof (induction vs arbitrary: k s w)
  case Nil
  show ?case by simp
next
  case (Cons v vs)
  have ih: "fst (Open_loop js fl rs (Suc k) vs (s\<lparr>list := (list s)[k := x]\<rparr>) w')
              \<noteq> Panicked (IndexOutOfRange i m)" for x w'
    by (rule Cons.IH) (use Cons.prems in simp)
  have k: "k < length (list s)" using Cons.prems by simp
  show ?case
  proof (cases "randomize fl (rs k) (Name v) (DataType v) (MinValuePhy v) (MaxValuePhy v)")
    case (Return "next")
    with k ih show ?thesis
      by (simp add: store_slot_def split: prod.splits option.splits)
  next
    case (Fail e)
    then show ?thesis by simp
  next
    case (Panic p)
    with randomize_panic_kinds [OF Panic] show ?thesis by auto
  qed
qed

text \<open>In every outcome, the source \<^verbatim>\<open>Open\<close> leaves holds a slice of 100 slots.\<close>

lemma Open_length: "length (list (fst (snd (Open js fl rs s w)))) = 100"
  by (simp add: Open_def Open_loop_length length_Open_alloc split: option.splits)

text \<open>
  With no more signals left than free slots and every round getting its value and its
  encoding, the loop reaches its end, slot \<open>k + i\<close> holds the encoding of round \<open>i\<close> and
  the slots below \<open>k\<close> are as they were.
\<close>

lemma Open_loop_all_stored:
  assumes "k + length vs \<le> length (list s)"
    and "\<forall>i < length vs. \<exists>next ns.
           randomize fl (rs (k + i)) (Name (vs ! i)) (DataType (vs ! i))
             (MinValuePhy (vs ! i)) (MaxValuePhy (vs ! i)) = Return next \<and>
           Marshal js next = (ns, None)"
  shows "fst (Open_loop js fl rs k vs s w) = Blocked \<and>
         (\<forall>i < length vs. \<exists>next ns.
            randomize fl (rs (k + i)) (Name (vs ! i)) (DataType (vs ! i))
              (MinValuePhy (vs ! i)) (MaxValuePhy (vs ! i)) = Return next \<and>
            Marshal js next = (ns, None) \<and>
            list (fst (snd (Open_loop js fl rs k vs s w))) ! (k + i) = Some ns) \<and>
         (\<forall>j < k. list (fst (snd (Open_loop js fl rs k vs s w))) ! j = list s ! j)"
  using assms
proof (induction vs arbitrary: k s w)
  case Nil
  show ?case by simp
next
  case (Cons v vs)
  from Cons.prems(2) [rule_format, of 0] obtain "next" ns where
    r: "randomize fl (rs k) (Name v) (DataType v) (MinValuePhy v) (MaxValuePhy v) = Return next"
    and m: "Marshal js next = (ns, None)"
    by auto
  have k: "k < length (list s)" using Cons.prems(1) by simp
  let ?s1 = "s\<lparr>list := (list s)[k := Some ns]\<rparr>"
  let ?w1 = "w\<lparr>logs := logs w @ [DebugReady v],
               tasks := tasks w @ (if ChangeTime v \<noteq> 0 then [MutationLoop k v] else []) @
                 [EmissionLoop k v]\<rparr>"
  have step: "Open_loop js fl rs k (v # vs) s w = Open_loop js fl rs (Suc k) vs ?s1 ?w1"
    using r m k by (simp add: store_slot_def)
  have p1: "Suc k + length vs \<le> length (list ?s1)" using Cons.prems(1) by simp
  have p2: "\<forall>i < length vs. \<exists>next ns.
           randomize fl (rs (Suc k + i)) (Name (vs ! i)) (DataType (vs ! i))
             (MinValuePhy (vs ! i)) (MaxValuePhy (vs ! i)) = Return next \<and>
           Marshal js next = (ns, None)"
  proof (intro allI impI)
    fix i assume "i < length vs"
    then have "Suc i < length (v # vs)" by simp
    from Cons.prems(2) [rule_format, OF this] show "\<exists>next ns.
           randomize fl (rs (Suc k + i)) (Name (vs ! i)) (DataType (vs ! i))
             (MinValuePhy (vs ! i)) (MaxValuePhy (vs ! i)) = Return next \<and>
           Marshal js next = (ns, None)"
      by simp
  qed
  note ih = Cons.IH [OF p1 p2, of ?w1]
  let ?s' = "fst (snd (Open_loop js fl rs (Suc k) vs ?s1 ?w1))"
  from ih have b: "fst (Open_loop js fl rs (Suc k) vs ?s1 ?w1) = Blocked"
    and st: "\<forall>i < length vs. \<exists>next ns.
            randomize fl (rs (Suc k + i)) (Name (vs ! i)) (DataType (vs ! i))
              (MinValuePhy (vs ! i)) (MaxValuePhy (vs ! i)) = Return next \<and>
            Marshal js next = (ns, None) \<and> list ?s' ! (Suc k + i) = Some ns"
    and old: "\<forall>j < Suc k. list ?s' ! j = list ?s1 ! j"
    by blast+
  have atk: "list ?s' ! k = Some ns"
    using old [rule_format, of k] k by simp
  have "\<exists>next ns.
            randomize fl (rs (k + i)) (Name ((v # vs) ! i)) (DataType ((v # vs) ! i))
              (MinValuePhy ((v # vs) ! i)) (MaxValuePhy ((v # vs) ! i)) = Return next \<and>
            Marshal js next = (ns, None) \<and> list ?s' ! (k + i) = Some ns"
    if "i < length (v # vs)" for i
  proof (cases i)
    case 0
    with r m atk show ?thesis by simp
  next
    case (Suc i')
    with that have "i' < length vs" by simp
    from st [rule_format, OF this] Suc show ?thesis by simp
  qed
  moreover have "list ?s' ! j = list s ! j" if "j < k" for j
    using old [rule_format, of j] that by simp
  ultimately show ?case
    unfolding step using b by blast
qed


lemma Open_overflow:
  assumes "conf s = Some cfg" and "100 < length (Signal cfg)"
    and "\<forall>k \<le> 100. \<exists>next ns.
        randomize fl (rs k) (Name (Signal cfg ! k)) (DataType (Signal cfg ! k))
          (MinValuePhy (Signal cfg ! k)) (MaxValuePhy (Signal cfg ! k)) = Return next \<and>
        Marshal js next = (ns, None)"
  shows "fst (Open js fl rs s w) = Panicked (IndexOutOfRange 100 100)"
proof -
  have "fst (Open_loop js fl rs 0 (Signal cfg) (Open_alloc s) w)
          = Panicked (IndexOutOfRange 100 100)"
    by (rule Open_loop_overflow) (use assms in \<open>simp_all add: length_Open_alloc\<close>)
  with assms(1) show ?thesis by (simp add: Open_def)
qed

lemma Open_in_bounds:
  assumes "conf s = Some cfg" and "length (Signal cfg) \<le> 100"
  shows "fst (Open js fl rs s w) \<noteq> Panicked (IndexOutOfRange i m)"
proof -
  have "fst (Open_loop js fl rs 0 (Signal cfg) (Open_alloc s) w)
          \<noteq> Panicked (IndexOutOfRange i m)"
    by (rule Open_loop_in_bounds) (use assms in \<open>simp add: length_Open_alloc\<close>)
  with assms(1) show ?thesis by (simp add: Open_def)
qed

lemma Open_all_stored:
  assumes "conf s = Some cfg" and "length (Signal cfg) \<le> 100"
    and "\<forall>k < length (Signal cfg). \<exists>next ns.
        randomize fl (rs k) (Name (Signal cfg ! k)) (DataType (Signal cfg ! k))
          (MinValuePhy (Signal cfg ! k)) (MaxValuePhy (Signal cfg ! k)) = Return next \<and>
        Marshal js next = (ns, None)"
  shows "fst (Open js fl rs s w) = Blocked \<and>
        (\<forall>k < length (Signal cfg). \<exists>next ns.
           randomize fl (rs k) (Name (Signal cfg ! k)) (DataType (Signal cfg ! k))
             (MinValuePhy (Signal cfg ! k)) (MaxValuePhy (Signal cfg ! k)) = Return next \<and>
           Marshal js next = (ns, None) \<and>
           list (fst (snd (Open js fl rs s w))) ! k = Some ns)"
proof -
  have o: "Open js fl rs s w = Open_loop js fl rs 0 (Signal cfg) (Open_alloc s) w"
    using assms(1) by (simp add: Open_def)
  have "fst (Open_loop js fl rs 0 (Signal cfg) (Open_alloc s) w) = Blocked \<and>
         (\<forall>i < length (Signal cfg). \<exists>next ns.
            randomize fl (rs (0 + i)) (Name (Signal cfg ! i)) (DataType (Signal cfg ! i))
              (MinValuePhy (Signal cfg ! i)) (MaxValuePhy (Signal cfg ! i)) = Return next \<and>
            Marshal js next = (ns, None) \<and>
            list (fst (snd (Open_loop js fl rs 0 (Signal cfg) (Open_alloc s) w))) ! (0 + i) = Some ns) \<and>
         (\<forall>j < 0. list (fst (snd (Open_loop js fl rs 0 (Signal cfg) (Open_alloc s) w))) ! j
            = list (Open_alloc s) ! j)"
    by (rule Open_loop_all_stored) (use assms in \<open>simp_all add: length_Open_alloc\<close>)
  then show ?thesis unfolding o by simp
qed


text \<open>
  C10. \<^verbatim>\<open>Open\<close> makes \<^verbatim>\<open>s.list\<close> with 100 slots whatever the configuration holds: the
  source it leaves has a slice of length 100 in every outcome, so the store
  \<^verbatim>\<open>s.list[k] = ns\<close> is within the slice exactly for \<open>k < 100\<close>. With more than 100 signals,
  each of the first 101 getting its initial value and its encoding, \<^verbatim>\<open>Open\<close> panics at the
  store of index 100. With at most 100 signals no store of \<^verbatim>\<open>Open\<close> is out of range, and
  when every signal gets its initial value and its encoding \<^verbatim>\<open>Open\<close> reaches
  \<^verbatim>\<open><-ctx.Done()\<close> with the encoding of the \<open>k\<close>-th signal in slot \<open>k\<close>.
\<close>

theorem Open_fixed_capacity:
  "length (list (Open_alloc s)) = 100 \<and>
   length (list (fst (snd (Open js fl rs s w)))) = 100 \<and>
   (\<forall>k ns. (\<exists>l. store_slot (list (Open_alloc s)) k ns = Inr l) = (k < 100)) \<and>
   (conf s = Some cfg \<and> 100 < length (Signal cfg) \<and>
    (\<forall>k \<le> 100. \<exists>next ns.
        randomize fl (rs k) (Name (Signal cfg ! k)) (DataType (Signal cfg ! k))
          (MinValuePhy (Signal cfg ! k)) (MaxValuePhy (Signal cfg ! k)) = Return next \<and>
        Marshal js next = (ns, None))
    \<longrightarrow> fst (Open js fl rs s w) = Panicked (IndexOutOfRange 100 100)) \<and>
   (conf s = Some cfg \<and> length (Signal cfg) \<le> 100
    \<longrightarrow> (\<forall>i m. fst (Open js fl rs s w) \<noteq> Panicked (IndexOutOfRange i m))) \<and>
   (conf s = Some cfg \<and> length (Signal cfg) \<le> 100 \<and>
    (\<forall>k < length (Signal cfg). \<exists>next ns.
        randomize fl (rs k) (Name (Signal cfg ! k)) (DataType (Signal cfg ! k))
          (MinValuePhy (Signal cfg ! k)) (MaxValuePhy (Signal cfg ! k)) = Return next \<and>
        Marshal js next = (ns, None))
    \<longrightarrow> fst (Open js fl rs s w) = Blocked \<and>
        (\<forall>k < length (Signal cfg). \<exists>next ns.
           randomize fl (rs k) (Name (Signal cfg ! k)) (DataType (Signal cfg ! k))
             (MinValuePhy (Signal cfg ! k)) (MaxValuePhy (Signal cfg ! k)) = Return next \<and>
           Marshal js next = (ns, None) \<and>
           list (fst (snd (Open js fl rs s w))) ! k = Some ns))"
proof (intro conjI)
  show "length (list (Open_alloc s)) = 100" by (rule length_Open_alloc)
next
  show "length (list (fst (snd (Open js fl rs s w)))) = 100" by (rule Open_length)
next
  show "\<forall>k ns. (\<exists>l. store_slot (list (Open_alloc s)) k ns = Inr l) = (k < 100)"
    by (simp add: store_slot_Inr_iff length_Open_alloc)
next
  show "conf s = Some cfg \<and> 100 < length (Signal cfg) \<and>
    (\<forall>k \<le> 100. \<exists>next ns.
        randomize fl (rs k) (Name (Signal cfg ! k)) (DataType (Signal cfg ! k))
          (MinValuePhy (Signal cfg ! k)) (MaxValuePhy (Signal cfg ! k)) = Return next \<and>
        Marshal js next = (ns, None))
    \<longrightarrow> fst (Open js fl rs s w) = Panicked (IndexOutOfRange 100 100)"
    using Open_overflow [of s cfg fl rs js w] by blast
next
  show "conf s = Some cfg \<and> length (Signal cfg) \<le> 100
    \<longrightarrow> (\<forall>i m. fst (Open js fl rs s w) \<noteq> Panicked (IndexOutOfRange i m))"
    using Open_in_bounds [of s cfg js fl rs w] by blast
next
  show "conf s = Some cfg \<and> length (Signal cfg) \<le> 100 \<and>
    (\<forall>k < length (Signal cfg). \<exists>next ns.
        randomize fl (rs k) (Name (Signal cfg ! k)) (DataType (Signal cfg ! k))
          (MinValuePhy (Signal cfg ! k)) (MaxValuePhy (Signal cfg ! k)) = Return next \<and>
        Marshal js next = (ns, None))
    \<longrightarrow> fst (Open js fl rs s w) = Blocked \<and>
        (\<forall>k < length (Signal cfg). \<exists>next ns.
           randomize fl (rs k) (Name (Signal cfg ! k)) (DataType (Signal cfg ! k))
             (MinValuePhy (Signal cfg ! k)) (MaxValuePhy (Signal cfg ! k)) = Return next \<and>
           Marshal js next = (ns, None) \<and>
           list (fst (snd (Open js fl rs s w))) ! k = Some ns)"
    using Open_all_stored [of s cfg fl rs js w] by (intro impI) (elim conjE)
qed

text \<open>
  The theorem at a configuration of 101 copies of the signal \<^verbatim>\<open>Speed\<close>, and at the
  configuration of that one signal.
\<close>

theorem Open_fixed_capacity_witness:
  "length (list (fst (snd (Open json_stub no_float (\<lambda>k. zero_draws)
          (CanSignal\<lparr>conf := Some \<lparr>Signal = replicate 101 speed\<rparr>\<rparr>) empty_world)))) = 100 \<and>
   fst (Open json_stub no_float (\<lambda>k. zero_draws)
          (CanSignal\<lparr>conf := Some \<lparr>Signal = replicate 101 speed\<rparr>\<rparr>) empty_world)
     = Panicked (IndexOutOfRange 100 100) \<and>
   (\<forall>i m. fst (Open json_stub no_float (\<lambda>k. zero_draws)
                 (CanSignal\<lparr>conf := Some \<lparr>Signal = [speed]\<rparr>\<rparr>) empty_world)
            \<noteq> Panicked (IndexOutOfRange i m)) \<and>
   fst (Open json_stub no_float (\<lambda>k. zero_draws)
          (CanSignal\<lparr>conf := Some \<lparr>Signal = [speed]\<rparr>\<rparr>) empty_world) = Blocked \<and>
   list (fst (snd (Open json_stub no_float (\<lambda>k. zero_draws)
          (CanSignal\<lparr>conf := Some \<lparr>Signal = [speed]\<rparr>\<rparr>) empty_world))) ! 0 = Some [123, 125]"
proof -
  have r: "randomize no_float zero_draws ''Speed'' ''int32'' ''0'' ''100''
             = Return [''Speed'' \<mapsto> Int32 0]"
    by (simp add: randomize_eval zero_draws_def)
  have h: "\<forall>k \<le> 100. \<exists>next ns.
        randomize no_float zero_draws (Name (replicate 101 speed ! k))
          (DataType (replicate 101 speed ! k)) (MinValuePhy (replicate 101 speed ! k))
          (MaxValuePhy (replicate 101 speed ! k)) = Return next \<and>
        Marshal json_stub next = (ns, None)"
  proof (intro allI impI)
    fix k :: nat
    assume "k \<le> 100"
    then have "replicate 101 speed ! k = speed" by simp
    then show "\<exists>next ns.
        randomize no_float zero_draws (Name (replicate 101 speed ! k))
          (DataType (replicate 101 speed ! k)) (MinValuePhy (replicate 101 speed ! k))
          (MaxValuePhy (replicate 101 speed ! k)) = Return next \<and>
        Marshal json_stub next = (ns, None)"
      by (simp add: speed_def mk_signal_def r json_stub_def)
  qed
  have m: "Marshal json_stub x = ([123, 125], None)" for x
    by (simp add: json_stub_def)
  have r1: "randomize no_float zero_draws (Name speed) (DataType speed) (MinValuePhy speed)
              (MaxValuePhy speed) = Return [''Speed'' \<mapsto> Int32 0]"
    by (simp add: speed_def mk_signal_def r)
  show ?thesis
    using h
      Open_fixed_capacity [of "CanSignal\<lparr>conf := Some \<lparr>Signal = replicate 101 speed\<rparr>\<rparr>"
        json_stub no_float "\<lambda>k. zero_draws" empty_world "\<lparr>Signal = replicate 101 speed\<rparr>"]
      Open_fixed_capacity [of "CanSignal\<lparr>conf := Some \<lparr>Signal = [speed]\<rparr>\<rparr>"
        json_stub no_float "\<lambda>k. zero_draws" empty_world "\<lparr>Signal = [speed]\<rparr>"]
    by (simp add: r1 m)
qed

subsection \<open>The emission loop\<close>

text \<open>
  C5, as amended. In a tick in which \<^verbatim>\<open>json.Unmarshal\<close> of the stored slot fails, the
  failure is logged as a warning, the map \<^verbatim>\<open>next\<close> as the failed call left it is still
  logged and published as a tuple without meta data, and the loop goes on with the
  events that follow.
\<close>

theorem emission_tick_decode_failure:
  assumes "Unmarshal js sl Map.empty = (next, Some e)"
  shows "emission_tick js sl w =
           w\<lparr>logs := logs w @ [WarnUnmarshalFailed sl, DebugSendOut next],
             consumer := consumer w @ [DefaultSourceTuple next None]\<rparr> \<and>
         emission_loop js (Tick sl # es) w = emission_loop js es (emission_tick js sl w) \<and>
         fst (emission_loop js [Tick sl] w) = Waiting"
  using assms by (simp add: emission_tick_def)

text \<open>The theorem at a nil slot, followed by the end of the context.\<close>

theorem emission_tick_decode_failure_witness:
  "emission_tick json_stub None empty_world =
     empty_world\<lparr>logs := logs empty_world @ [WarnUnmarshalFailed None, DebugSendOut Map.empty],
       consumer := consumer empty_world @ [DefaultSourceTuple Map.empty None]\<rparr> \<and>
   emission_loop json_stub [Tick None, Done] empty_world
     = emission_loop json_stub [Done] (emission_tick json_stub None empty_world) \<and>
   fst (emission_loop json_stub [Tick None] empty_world) = Waiting"
proof -
  have h: "Unmarshal json_stub None Map.empty
             = (Map.empty, Some (ExternalError ''unexpected end of JSON input''))"
    by (simp add: json_stub_def)
  show ?thesis
    by (rule emission_tick_decode_failure [OF h])
qed

text \<open>
  C5 as stated fails: the slot does not decode, and the tick publishes a tuple (of the
  empty map) all the same.
\<close>

theorem emission_tick_decode_failure_publishes:
  "Unmarshal json_stub None Map.empty
     = (Map.empty, Some (ExternalError ''unexpected end of JSON input'')) \<and>
   consumer (emission_tick json_stub None empty_world) = [DefaultSourceTuple Map.empty None] \<and>
   consumer (emission_tick json_stub None empty_world) \<noteq> consumer empty_world"
  by (simp add: emission_tick_def json_stub_def empty_world_def)

subsection \<open>Close\<close>

text \<open>
  C9. \<^verbatim>\<open>Close\<close> is idempotent: on every source it returns nil and leaves the source as it
  is, so a second call, and any number of calls, does the same.
\<close>

theorem Close_idempotent:
  "Close s = (s, None) \<and> Close (fst (Close s)) = Close s \<and>
   (\<forall>n. ((fst \<circ> Close) ^^ n) s = s \<and> snd (Close (((fst \<circ> Close) ^^ n) s)) = None)"
proof -
  have "((fst \<circ> Close) ^^ n) s = s" for n
    by (induction n) (simp_all add: Close_def)
  then show ?thesis by (simp add: Close_def)
qed

end
